theory Spec2Isabelle
  imports Main "HOL-Library.Multiset"
begin

section \<open>Errors\<close>

text \<open>
  Construction of a model either returns the validated value or raises. A declaration
  that rejects the shape of its input (required field, list or object, \<open>min_length\<close>,
  \<open>max_length\<close>, \<open>StrictStr\<close>) gives a structural error; a \<open>ValueError\<close> raised by a
  \<open>field_validator\<close> gives a constraint violation; a discriminated union that cannot find
  its tag gives a decode error. \<open>TypeError\<close>, \<open>AttributeError\<close> and \<open>IndexError\<close> are the
  Python exceptions a validator body can raise without meaning to: they are not turned
  into validation errors and leave the constructor as they are.
\<close>

datatype structural = Missing | WrongShape | TooShort | TooLong

datatype violation =
    NoTranslatesFrom
    \<comment> \<open>"Unable to find at least one constraint that is a `DefiningAlleleConstraint` and has
        exactly one `relation` where the `primaryCode` is 'translates_from'."\<close>
  | NotDefiningAllele
    \<comment> \<open>"Constraint must be a `DefiningAlleleConstraint`."\<close>
  | RelationsRequired
    \<comment> \<open>"`relations` is required."\<close>
  | NotExactlyOne string
    \<comment> \<open>"Must contain exactly one relation where `primaryCode` is '...'."\<close>
  | NoDefiningLocation
    \<comment> \<open>"Must contain a `DefiningLocationConstraint` with at least one relation where
        `primaryCode` is liftover_to."\<close>
  | NoCopyConstraint
    \<comment> \<open>"Must contain either a `CopyCountConstraint` or `CopyChangeConstraint`."\<close>

datatype tag_error = TagNotFound | TagInvalid

datatype error =
    StructuralValidationError structural
  | ConstraintViolation violation
  | DecodeError tag_error
  | TypeError
  | AttributeError
  | IndexError

section \<open>Relations and constraints of \<open>recipes.py\<close>\<close>

text \<open>
  Modelled from the spec: \<open>recipes.py\<close> imports \<open>Relation\<close>, \<open>Constraint\<close> and the
  constraint classes from a \<open>models\<close> module whose declarations of them are not among the
  sources. The spec gives a constraint as one of five variants carrying an optional
  ordered list of relations, each a pair of a primary code and optional qualifiers, and
  the codes as a closed vocabulary; \<open>Relation\<close> is the enumeration of the codes, a member
  being equal to its string value.
\<close>

definition TRANSLATES_FROM :: string where "TRANSLATES_FROM = ''translates_from''"
definition LIFTOVER_TO :: string where "LIFTOVER_TO = ''liftover_to''"
definition TRANSCRIBES_TO :: string where "TRANSCRIBES_TO = ''transcribes_to''"

record relation =
  primaryCode :: string
  qualifiers :: "string list option"

text \<open>
  What a \<open>relations\<close> list can hold at run time: a relation object, which has a
  \<open>primaryCode\<close>, or a bare member of the \<open>Relation\<close> enumeration, which has none.
  The validators of \<open>recipes.py\<close> read \<open>r.primaryCode\<close> in two places and test
  \<open>Relation.LIFTOVER_TO in constraint.relations\<close> in a third, so both are modelled.
\<close>

datatype relation_item = RelObj relation | RelCode string

datatype constraint_type =
    DefiningAlleleConstraint
  | DefiningLocationConstraint
  | DefiningContextConstraint
  | CopyChangeConstraint
  | CopyCountConstraint

record constraint =
  ctype :: constraint_type
  relations :: "relation_item list option"

text \<open>Python's \<open>==\<close> on two items: values of different classes are never equal.\<close>

fun py_eq :: "relation_item \<Rightarrow> relation_item \<Rightarrow> bool" where
  "py_eq (RelObj r) (RelObj s) = (r = s)"
| "py_eq (RelCode a) (RelCode b) = (a = b)"
| "py_eq (RelObj r) (RelCode b) = False"
| "py_eq (RelCode a) (RelObj s) = False"

text \<open>\<open>x in xs\<close> on a list.\<close>

definition py_in :: "relation_item \<Rightarrow> relation_item list \<Rightarrow> bool" where
  "py_in x xs = list_ex (py_eq x) xs"

text \<open>Truth value of an optional list: \<open>None\<close> and \<open>[]\<close> are false.\<close>

fun truthy :: "'a list option \<Rightarrow> bool" where
  "truthy None = False"
| "truthy (Some xs) = (xs \<noteq> [])"

text \<open>
  \<open>sum(1 for r in constraint.relations if r.primaryCode == code)\<close>: iterating \<open>None\<close>
  raises \<open>TypeError\<close>, and reading \<open>primaryCode\<close> of an item that has none raises
  \<open>AttributeError\<close>.
\<close>

fun count_primaryCode :: "string \<Rightarrow> relation_item list \<Rightarrow> error + nat" where
  "count_primaryCode code [] = Inr 0"
| "count_primaryCode code (RelCode c # rs) = Inl AttributeError"
| "count_primaryCode code (RelObj r # rs) =
     (case count_primaryCode code rs of
        Inl e \<Rightarrow> Inl e
      | Inr n \<Rightarrow> Inr (if primaryCode r = code then Suc n else n))"

fun sum_matching :: "string \<Rightarrow> relation_item list option \<Rightarrow> error + nat" where
  "sum_matching code None = Inl TypeError"
| "sum_matching code (Some rs) = count_primaryCode code rs"

section \<open>The shape of the \<open>constraints\<close> field\<close>

text \<open>
  The value supplied for \<open>constraints\<close>: nothing, one constraint object, or a list of
  constraint objects. A field declared \<open>list[Constraint] = Field(..., min_length, max_length)\<close>
  is required, takes a list only, and checks the length before the \<open>field_validator\<close>
  of the field runs (the validators are declared in the default mode, after the field's
  own validation).
\<close>

datatype 'c raw = Absent | Single 'c | Many "'c list"

fun list_field :: "nat \<Rightarrow> nat option \<Rightarrow> 'c raw \<Rightarrow> error + 'c list" where
  "list_field lo hi Absent = Inl (StructuralValidationError Missing)"
| "list_field lo hi (Single c) = Inl (StructuralValidationError WrongShape)"
| "list_field lo hi (Many v) =
     (if length v < lo then Inl (StructuralValidationError TooShort)
      else
       (case hi of
          None \<Rightarrow> Inr v
        | Some h \<Rightarrow> if h < length v then Inl (StructuralValidationError TooLong) else Inr v))"

section \<open>\<open>recipes.py\<close>: the strict profile\<close>

subsection \<open>ProteinSequenceConsequence\<close>

text \<open>
  The element of the generator given to \<open>any\<close>: the three conditions are the members of a
  tuple, so all three are evaluated before \<open>all\<close> sees them, the sum included.
\<close>

definition translates_from_item :: "constraint \<Rightarrow> error + bool" where
  "translates_from_item c =
     (case sum_matching TRANSLATES_FROM (relations c) of
        Inl e \<Rightarrow> Inl e
      | Inr n \<Rightarrow> Inr (ctype c = DefiningAlleleConstraint \<and> truthy (relations c) \<and> n = 1))"

text \<open>\<open>any\<close> over the generator: it stops at the first true element.\<close>

fun any_translates_from :: "constraint list \<Rightarrow> error + bool" where
  "any_translates_from [] = Inr False"
| "any_translates_from (c # cs) =
     (case translates_from_item c of
        Inl e \<Rightarrow> Inl e
      | Inr b \<Rightarrow> if b then Inr True else any_translates_from cs)"

definition ProteinSequenceConsequence_validate_constraints ::
    "constraint list \<Rightarrow> error + constraint list" where
  "ProteinSequenceConsequence_validate_constraints v =
     (case any_translates_from v of
        Inl e \<Rightarrow> Inl e
      | Inr b \<Rightarrow> if \<not> b then Inl (ConstraintViolation NoTranslatesFrom) else Inr v)"

definition ProteinSequenceConsequence_construct ::
    "constraint raw \<Rightarrow> error + constraint list" where
  "ProteinSequenceConsequence_construct x =
     (case list_field 1 None x of
        Inl e \<Rightarrow> Inl e
      | Inr v \<Rightarrow> ProteinSequenceConsequence_validate_constraints v)"

subsection \<open>CanonicalAllele\<close>

fun CanonicalAllele_validate_constraints :: "constraint list \<Rightarrow> error + constraint list" where
  "CanonicalAllele_validate_constraints [] = Inl IndexError"
| "CanonicalAllele_validate_constraints (c # cs) =
     (if ctype c \<noteq> DefiningAlleleConstraint then Inl (ConstraintViolation NotDefiningAllele)
      else if \<not> truthy (relations c) then Inl (ConstraintViolation RelationsRequired)
      else
       (case sum_matching LIFTOVER_TO (relations c) of
          Inl e \<Rightarrow> Inl e
        | Inr n \<Rightarrow>
            if n \<noteq> 1 then Inl (ConstraintViolation (NotExactlyOne LIFTOVER_TO))
            else
             (case sum_matching TRANSCRIBES_TO (relations c) of
                Inl e \<Rightarrow> Inl e
              | Inr m \<Rightarrow>
                  if m \<noteq> 1 then Inl (ConstraintViolation (NotExactlyOne TRANSCRIBES_TO))
                  else Inr (c # cs))))"

definition CanonicalAllele_construct :: "constraint raw \<Rightarrow> error + constraint list" where
  "CanonicalAllele_construct x =
     (case list_field 1 (Some 1) x of
        Inl e \<Rightarrow> Inl e
      | Inr v \<Rightarrow> CanonicalAllele_validate_constraints v)"

subsection \<open>CategoricalCnv\<close>

text \<open>
  The body of the \<open>for\<close> loop on the two flags. Only the truth value of
  \<open>def_loc_constr_found\<close> is ever read, so the flag is its truth value; the \<open>and\<close> chain
  stops at the first false operand, so \<open>in\<close> is applied to a non-empty list only.
\<close>

definition liftover_location :: "constraint \<Rightarrow> bool" where
  "liftover_location c =
     (ctype c = DefiningLocationConstraint \<and>
      (case relations c of
         None \<Rightarrow> False
       | Some rs \<Rightarrow> rs \<noteq> [] \<and> py_in (RelCode LIFTOVER_TO) rs))"

definition copy_constraint :: "constraint \<Rightarrow> bool" where
  "copy_constraint c = (ctype c = CopyCountConstraint \<or> ctype c = CopyChangeConstraint)"

fun cnv_loop :: "bool \<times> bool \<Rightarrow> constraint list \<Rightarrow> bool \<times> bool" where
  "cnv_loop (def_loc_constr_found, copy_constr_found) [] =
     (def_loc_constr_found, copy_constr_found)"
| "cnv_loop (def_loc_constr_found, copy_constr_found) (c # cs) =
     cnv_loop
       (if \<not> def_loc_constr_found then liftover_location c else def_loc_constr_found,
        if \<not> copy_constr_found then copy_constraint c else copy_constr_found) cs"

definition CategoricalCnv_validate_constraints :: "constraint list \<Rightarrow> error + constraint list" where
  "CategoricalCnv_validate_constraints v =
     (case cnv_loop (False, False) v of
        (def_loc_constr_found, copy_constr_found) \<Rightarrow>
          if \<not> def_loc_constr_found then Inl (ConstraintViolation NoDefiningLocation)
          else if \<not> copy_constr_found then Inl (ConstraintViolation NoCopyConstraint)
          else Inr v)"

definition CategoricalCnv_construct :: "constraint raw \<Rightarrow> error + constraint list" where
  "CategoricalCnv_construct x =
     (case list_field 2 (Some 2) x of
        Inl e \<Rightarrow> Inl e
      | Inr v \<Rightarrow> CategoricalCnv_validate_constraints v)"

section \<open>\<open>profile_models.py\<close>: the permissive profile\<close>

text \<open>
  Modelled from the spec: \<open>profile_models.py\<close> imports \<open>Relation\<close>, \<open>Constraint\<close> and
  \<open>DefiningContextConstraint\<close> from a \<open>core_models\<close> module that is not among the
  sources. Its validators test members of \<open>Relation\<close> for membership in \<open>v.relations\<close>
  and build \<open>set(v.relations)\<close>, so here a relation is a bare code; the three codes the
  validators name take their values from the vocabulary of the spec.
\<close>

definition CODON_TRANSLATION :: string where "CODON_TRANSLATION = ''codon_translation''"
definition SEQUENCE_LIFTOVER :: string where "SEQUENCE_LIFTOVER = ''sequence_liftover''"
definition TRANSCRIPT_PROJECTION :: string where
  "TRANSCRIPT_PROJECTION = ''transcript_projection''"

record core_constraint =
  core_type :: constraint_type
  core_relations :: "string list option"

text \<open>
  What \<open>logging.warning\<close> is called with: the single missing code, or the set of missing
  codes. The log is the list of the warnings emitted, oldest first.
\<close>

datatype warning = MissingRelation string | MissingRelations "string set"

text \<open>
  A field declared with a model class (\<open>constraints: DefiningContextConstraint\<close>, or
  \<open>constraints: Constraint\<close>, any of the constraint variants) is required and takes one
  object of that class, never a list.
\<close>

fun object_field :: "(constraint_type \<Rightarrow> bool) \<Rightarrow> core_constraint raw \<Rightarrow> error + core_constraint" where
  "object_field accepts Absent = Inl (StructuralValidationError Missing)"
| "object_field accepts (Many v) = Inl (StructuralValidationError WrongShape)"
| "object_field accepts (Single c) =
     (if accepts (core_type c) then Inr c else Inl (StructuralValidationError WrongShape))"

definition is_DefiningContextConstraint :: "constraint_type \<Rightarrow> bool" where
  "is_DefiningContextConstraint t = (t = DefiningContextConstraint)"

definition is_Constraint :: "constraint_type \<Rightarrow> bool" where
  "is_Constraint t = True"

text \<open>A validator returns its argument and the warnings it logged.\<close>

definition ProteinSequenceConsequenceProperties_validate_constraints ::
    "core_constraint \<Rightarrow> core_constraint \<times> warning list" where
  "ProteinSequenceConsequenceProperties_validate_constraints v =
     (if truthy (core_relations v) \<and>
         \<not> List.member (case core_relations v of None \<Rightarrow> [] | Some rs \<Rightarrow> rs) CODON_TRANSLATION
      then (v, [MissingRelation CODON_TRANSLATION])
      else (v, []))"

definition CanonicalAlleleProperties_validate_constraints ::
    "core_constraint \<Rightarrow> core_constraint \<times> warning list" where
  "CanonicalAlleleProperties_validate_constraints v =
     (case core_relations v of
        None \<Rightarrow> (v, [])
      | Some rs \<Rightarrow>
          if rs = [] then (v, [])
          else
            let required_relations = {SEQUENCE_LIFTOVER, TRANSCRIPT_PROJECTION};
                relations = set rs
            in if \<not> required_relations \<subseteq> relations
               then (v, [MissingRelations (required_relations - relations)])
               else (v, []))"

definition CategoricalCnvProperties_validate_constraints ::
    "core_constraint \<Rightarrow> core_constraint \<times> warning list" where
  "CategoricalCnvProperties_validate_constraints v =
     (if truthy (core_relations v) \<and>
         \<not> List.member (case core_relations v of None \<Rightarrow> [] | Some rs \<Rightarrow> rs) SEQUENCE_LIFTOVER
      then (v, [MissingRelation SEQUENCE_LIFTOVER])
      else (v, []))"

text \<open>Construction: the field's own validation, then the validator; the log with it.\<close>

definition construct_with ::
    "(constraint_type \<Rightarrow> bool) \<Rightarrow> (core_constraint \<Rightarrow> core_constraint \<times> warning list) \<Rightarrow>
     core_constraint raw \<Rightarrow> (error + core_constraint) \<times> warning list" where
  "construct_with accepts validate x =
     (case object_field accepts x of
        Inl e \<Rightarrow> (Inl e, [])
      | Inr c \<Rightarrow> (case validate c of (c', log) \<Rightarrow> (Inr c', log)))"

definition ProteinSequenceConsequenceProperties_construct ::
    "core_constraint raw \<Rightarrow> (error + core_constraint) \<times> warning list" where
  "ProteinSequenceConsequenceProperties_construct =
     construct_with is_DefiningContextConstraint
       ProteinSequenceConsequenceProperties_validate_constraints"

definition CanonicalAlleleProperties_construct ::
    "core_constraint raw \<Rightarrow> (error + core_constraint) \<times> warning list" where
  "CanonicalAlleleProperties_construct =
     construct_with is_DefiningContextConstraint
       CanonicalAlleleProperties_validate_constraints"

definition CategoricalCnvProperties_construct ::
    "core_constraint raw \<Rightarrow> (error + core_constraint) \<times> warning list" where
  "CategoricalCnvProperties_construct =
     construct_with is_Constraint CategoricalCnvProperties_validate_constraints"

section \<open>\<open>models.py\<close>: DescribedVariation and the CategoricalVariation union\<close>

datatype CatVrsType =
    PROTEIN_SEQ_CONS
  | CANONICAL_ALLELE
  | CATEGORICAL_CNV
  | DESCRIBED_VAR
  | NUMBER_COUNT
  | NUMBER_CHANGE
  | QUANTITY_VARIANCE

fun CatVrsType_value :: "CatVrsType \<Rightarrow> string" where
  "CatVrsType_value PROTEIN_SEQ_CONS = ''ProteinSequenceConsequence''"
| "CatVrsType_value CANONICAL_ALLELE = ''CanonicalAllele''"
| "CatVrsType_value CATEGORICAL_CNV = ''CategoricalCnv''"
| "CatVrsType_value DESCRIBED_VAR = ''DescribedVariation''"
| "CatVrsType_value NUMBER_COUNT = ''NumberCount''"
| "CatVrsType_value NUMBER_CHANGE = ''NumberChange''"
| "CatVrsType_value QUANTITY_VARIANCE = ''QuantityVariance''"

text \<open>
  The input of a decoder is a mapping from field names to JSON values; \<open>JOther\<close> stands
  for the values no field below takes (numbers with a fraction).
\<close>

datatype json =
    JNull
  | JBool bool
  | JInt int
  | JStr string
  | JList "json list"
  | JObj "(string \<times> json) list"
  | JOther

type_synonym mapping = "string \<rightharpoonup> json"

text \<open>
  The fields of \<open>DescribedVariation\<close>. \<open>members\<close> is declared on its base class
  \<open>_CategoricalVariationBase\<close>: an optional list, default \<open>None\<close>, whose items are each
  one of eight classes of another package, so the validation of one item is the parameter
  \<open>member_ok\<close>. \<open>type\<close> is a literal with a default; \<open>label\<close> is
  \<open>StrictStr = Field(...)\<close>, required, a string and nothing else, with no bound on its
  length; \<open>description\<close> is \<open>StrictStr | None\<close> with default \<open>None\<close>. The class
  \<open>_DomainEntity\<close> above them comes from another package: the validation of the fields
  it declares is the parameter \<open>inherited\<close>.
\<close>

record DescribedVariation =
  members :: "json list option"
  type :: CatVrsType
  label :: string
  description :: "string option"

definition members_field :: "(json \<Rightarrow> bool) \<Rightarrow> json option \<Rightarrow> error + json list option" where
  "members_field member_ok x =
     (case x of
        None \<Rightarrow> Inr None
      | Some JNull \<Rightarrow> Inr None
      | Some (JList xs) \<Rightarrow>
          if list_all member_ok xs then Inr (Some xs)
          else Inl (StructuralValidationError WrongShape)
      | Some _ \<Rightarrow> Inl (StructuralValidationError WrongShape))"

definition literal_field :: "CatVrsType \<Rightarrow> json option \<Rightarrow> error + CatVrsType" where
  "literal_field k x =
     (case x of
        None \<Rightarrow> Inr k
      | Some (JStr s) \<Rightarrow>
          if s = CatVrsType_value k then Inr k else Inl (StructuralValidationError WrongShape)
      | Some _ \<Rightarrow> Inl (StructuralValidationError WrongShape))"

definition required_StrictStr :: "json option \<Rightarrow> error + string" where
  "required_StrictStr x =
     (case x of
        None \<Rightarrow> Inl (StructuralValidationError Missing)
      | Some (JStr s) \<Rightarrow> Inr s
      | Some _ \<Rightarrow> Inl (StructuralValidationError WrongShape))"

definition optional_StrictStr :: "json option \<Rightarrow> error + string option" where
  "optional_StrictStr x =
     (case x of
        None \<Rightarrow> Inr None
      | Some JNull \<Rightarrow> Inr None
      | Some (JStr s) \<Rightarrow> Inr (Some s)
      | Some _ \<Rightarrow> Inl (StructuralValidationError WrongShape))"

definition DescribedVariation_construct ::
    "(mapping \<Rightarrow> bool) \<Rightarrow> (json \<Rightarrow> bool) \<Rightarrow> mapping \<Rightarrow> error + DescribedVariation" where
  "DescribedVariation_construct inherited member_ok m =
     (if \<not> inherited m then Inl (StructuralValidationError WrongShape)
      else
       (case members_field member_ok (m ''members'') of
          Inl e \<Rightarrow> Inl e
        | Inr ms \<Rightarrow>
           (case literal_field DESCRIBED_VAR (m ''type'') of
              Inl e \<Rightarrow> Inl e
            | Inr t \<Rightarrow>
               (case required_StrictStr (m ''label'') of
                  Inl e \<Rightarrow> Inl e
                | Inr l \<Rightarrow>
                   (case optional_StrictStr (m ''description'') of
                      Inl e \<Rightarrow> Inl e
                    | Inr d \<Rightarrow>
                        Inr \<lparr>members = ms, type = t, label = l, description = d\<rparr>)))))"

text \<open>
  \<open>CategoricalVariation\<close>: a root model over the union of four classes, discriminated by
  \<open>type\<close>. The tag is read from the input, and the class it names validates the mapping.
  The classes have fields of types that come from another package, so the validation of
  the chosen class is the parameter \<open>body\<close>.
\<close>

definition union_members :: "CatVrsType list" where
  "union_members = [CANONICAL_ALLELE, CATEGORICAL_CNV, DESCRIBED_VAR, PROTEIN_SEQ_CONS]"

definition CategoricalVariation_decode ::
    "(CatVrsType \<Rightarrow> mapping \<Rightarrow> error + 'a) \<Rightarrow> mapping \<Rightarrow> error + CatVrsType \<times> 'a" where
  "CategoricalVariation_decode body m =
     (case m ''type'' of
        None \<Rightarrow> Inl (DecodeError TagNotFound)
      | Some (JStr s) \<Rightarrow>
         (case find (\<lambda>k. CatVrsType_value k = s) union_members of
            None \<Rightarrow> Inl (DecodeError TagInvalid)
          | Some k \<Rightarrow> (case body k m of Inl e \<Rightarrow> Inl e | Inr x \<Rightarrow> Inr (k, x)))
      | Some _ \<Rightarrow> Inl (DecodeError TagInvalid))"

section \<open>Properties\<close>

subsection \<open>CanonicalAllele in the strict profile\<close>




lemma list_field_exactly_one:
  "list_field 1 (Some 1) x = Inr v \<Longrightarrow> \<exists>c. x = Many [c] \<and> v = [c]"
proof (cases x)
  case (Many w)
  assume a: "list_field 1 (Some 1) x = Inr v"
  show ?thesis
  proof (cases w)
    case Nil
    with a Many show ?thesis by simp
  next
    case (Cons c cs)
    with a Many show ?thesis by (cases cs) (auto split: if_splits)
  qed
qed simp_all



lemma count_primaryCode_error:
  "count_primaryCode code rs = Inl e \<Longrightarrow> e = AttributeError"
proof (induction rs)
  case Nil
  then show ?case by simp
next
  case (Cons x xs)
  then show ?case by (cases x) (auto split: sum.splits)
qed

lemma sum_matching_error:
  "sum_matching code rel = Inl e \<Longrightarrow> e = TypeError \<or> e = AttributeError"
  by (cases rel) (auto dest: count_primaryCode_error)

lemma CanonicalAllele_validate_no_IndexError:
  "CanonicalAllele_validate_constraints (c # cs) \<noteq> Inl IndexError"
  by (auto split: sum.splits dest: sum_matching_error)

text \<open>
  C9. In the strict CanonicalAllele the read of \<open>v[0]\<close> is in bounds: construction never
  ends in \<open>IndexError\<close>, and every list the field's length check lets through to
  \<open>validate_constraints\<close> has exactly one element, on which the validator does not raise
  \<open>IndexError\<close>.
\<close>

theorem CanonicalAllele_first_item_in_bounds:
  "CanonicalAllele_construct x \<noteq> Inl IndexError \<and>
   (list_field 1 (Some 1) x = Inr v \<longrightarrow>
      length v = 1 \<and> CanonicalAllele_validate_constraints v \<noteq> Inl IndexError)"
proof (intro conjI impI)
  assume "list_field 1 (Some 1) x = Inr v"
  then obtain c where "v = [c]"
    using list_field_exactly_one by blast
  then show "length v = 1" and "CanonicalAllele_validate_constraints v \<noteq> Inl IndexError"
    using CanonicalAllele_validate_no_IndexError by simp_all
next
  show "CanonicalAllele_construct x \<noteq> Inl IndexError"
  proof (cases "list_field 1 (Some 1) x")
    case (Inl e)
    then have "e \<noteq> IndexError"
      by (cases x) (auto split: if_splits)
    with Inl show ?thesis
      by (simp add: CanonicalAllele_construct_def)
  next
    case (Inr v)
    then obtain c where "v = [c]"
      using list_field_exactly_one by blast
    with Inr show ?thesis
      using CanonicalAllele_validate_no_IndexError by (simp add: CanonicalAllele_construct_def)
  qed
qed

theorem CanonicalAllele_first_item_in_bounds_witness:
  "CanonicalAllele_construct (Many [\<lparr>ctype = CopyCountConstraint, relations = None\<rparr>])
     \<noteq> Inl IndexError \<and>
   length [\<lparr>ctype = CopyCountConstraint, relations = None\<rparr>] = 1 \<and>
   CanonicalAllele_validate_constraints [\<lparr>ctype = CopyCountConstraint, relations = None\<rparr>]
     \<noteq> Inl IndexError"
  using CanonicalAllele_first_item_in_bounds
    [of "Many [\<lparr>ctype = CopyCountConstraint, relations = None\<rparr>]"
        "[\<lparr>ctype = CopyCountConstraint, relations = None\<rparr>]"]
  by simp

subsection \<open>The shape of the field in the two profiles\<close>

text \<open>
  C10. In the permissive profile the \<open>constraints\<close> field of the three classes takes one
  constraint object: a list, whatever it holds, is rejected on its shape, while one object
  of the declared class passes the field's own validation and reaches the validator. The
  strict profile is the other way round: one object is rejected on its shape, and a list
  of a length within the bounds passes the field's own validation.
\<close>

theorem permissive_constraints_is_one_object:
  "ProteinSequenceConsequenceProperties_construct (Many v) =
     (Inl (StructuralValidationError WrongShape), []) \<and>
   CanonicalAlleleProperties_construct (Many v) =
     (Inl (StructuralValidationError WrongShape), []) \<and>
   CategoricalCnvProperties_construct (Many v) =
     (Inl (StructuralValidationError WrongShape), []) \<and>
   (core_type c = DefiningContextConstraint \<longrightarrow>
      fst (ProteinSequenceConsequenceProperties_construct (Single c)) = Inr c \<and>
      fst (CanonicalAlleleProperties_construct (Single c)) = Inr c) \<and>
   fst (CategoricalCnvProperties_construct (Single c)) = Inr c \<and>
   ProteinSequenceConsequence_construct (Single d) = Inl (StructuralValidationError WrongShape) \<and>
   CanonicalAllele_construct (Single d) = Inl (StructuralValidationError WrongShape) \<and>
   CategoricalCnv_construct (Single d) = Inl (StructuralValidationError WrongShape) \<and>
   (1 \<le> length w \<longrightarrow> list_field 1 None (Many w) = Inr w) \<and>
   (length w1 = 1 \<longrightarrow> list_field 1 (Some 1) (Many w1) = Inr w1) \<and>
   (length w2 = 2 \<longrightarrow> list_field 2 (Some 2) (Many w2) = Inr w2)"
  by (simp add: ProteinSequenceConsequenceProperties_construct_def
      CanonicalAlleleProperties_construct_def CategoricalCnvProperties_construct_def
      construct_with_def is_DefiningContextConstraint_def is_Constraint_def
      ProteinSequenceConsequenceProperties_validate_constraints_def
      CanonicalAlleleProperties_validate_constraints_def
      CategoricalCnvProperties_validate_constraints_def
      ProteinSequenceConsequence_construct_def CanonicalAllele_construct_def
      CategoricalCnv_construct_def Let_def split: option.splits)

theorem permissive_constraints_is_one_object_witness:
  "ProteinSequenceConsequenceProperties_construct
     (Many [\<lparr>core_type = DefiningContextConstraint, core_relations = None\<rparr>]) =
     (Inl (StructuralValidationError WrongShape), []) \<and>
   fst (ProteinSequenceConsequenceProperties_construct
     (Single \<lparr>core_type = DefiningContextConstraint, core_relations = None\<rparr>)) =
     Inr \<lparr>core_type = DefiningContextConstraint, core_relations = None\<rparr> \<and>
   fst (CanonicalAlleleProperties_construct
     (Single \<lparr>core_type = DefiningContextConstraint, core_relations = None\<rparr>)) =
     Inr \<lparr>core_type = DefiningContextConstraint, core_relations = None\<rparr> \<and>
   CanonicalAllele_construct (Single \<lparr>ctype = DefiningAlleleConstraint, relations = None\<rparr>) =
     Inl (StructuralValidationError WrongShape) \<and>
   list_field 1 None (Many [\<lparr>ctype = DefiningAlleleConstraint, relations = None\<rparr>]) =
     Inr [\<lparr>ctype = DefiningAlleleConstraint, relations = None\<rparr>] \<and>
   list_field 1 (Some 1) (Many [\<lparr>ctype = DefiningAlleleConstraint, relations = None\<rparr>]) =
     Inr [\<lparr>ctype = DefiningAlleleConstraint, relations = None\<rparr>] \<and>
   list_field 2 (Some 2)
     (Many [\<lparr>ctype = DefiningLocationConstraint, relations = None\<rparr>,
            \<lparr>ctype = CopyCountConstraint, relations = None\<rparr>]) =
     Inr [\<lparr>ctype = DefiningLocationConstraint, relations = None\<rparr>,
          \<lparr>ctype = CopyCountConstraint, relations = None\<rparr>]"
  using permissive_constraints_is_one_object
    [of "[\<lparr>core_type = DefiningContextConstraint, core_relations = None\<rparr>]"
        "\<lparr>core_type = DefiningContextConstraint, core_relations = None\<rparr>"
        "\<lparr>ctype = DefiningAlleleConstraint, relations = None\<rparr>"
        "[\<lparr>ctype = DefiningAlleleConstraint, relations = None\<rparr>]"
        "[\<lparr>ctype = DefiningAlleleConstraint, relations = None\<rparr>]"
        "[\<lparr>ctype = DefiningLocationConstraint, relations = None\<rparr>,
          \<lparr>ctype = CopyCountConstraint, relations = None\<rparr>]"]
  by simp

subsection \<open>The CategoricalVariation union\<close>

lemma union_member_values:
  "CatVrsType_value ` set union_members =
     {''CanonicalAllele'', ''CategoricalCnv'', ''DescribedVariation'',
      ''ProteinSequenceConsequence''}"
  unfolding union_members_def by simp

lemma find_union_member_None:
  "s \<notin> CatVrsType_value ` set union_members \<Longrightarrow>
   find (\<lambda>k. CatVrsType_value k = s) union_members = None"
  unfolding find_None_iff by blast

lemma find_union_member_Some:
  "find (\<lambda>k. CatVrsType_value k = s) union_members = Some k \<Longrightarrow>
   CatVrsType_value k = s \<and> k \<in> set union_members"
  unfolding find_Some_iff by auto

lemma decode_tag_absent:
  "m ''type'' = None \<Longrightarrow>
   CategoricalVariation_decode body m = Inl (DecodeError TagNotFound)"
  by (simp add: CategoricalVariation_decode_def)

lemma decode_tag_unknown:
  assumes "m ''type'' = Some (JStr s)"
    and "s \<notin> {''CanonicalAllele'', ''CategoricalCnv'', ''DescribedVariation'',
             ''ProteinSequenceConsequence''}"
  shows "CategoricalVariation_decode body m = Inl (DecodeError TagInvalid)"
proof -
  have "s \<notin> CatVrsType_value ` set union_members"
    unfolding union_member_values by (rule assms(2))
  then have "find (\<lambda>k. CatVrsType_value k = s) union_members = None"
    by (rule find_union_member_None)
  with assms(1) show ?thesis
    by (simp add: CategoricalVariation_decode_def)
qed

lemma decode_tag_known:
  assumes d: "CategoricalVariation_decode body m = Inr (k, x)"
  shows "m ''type'' = Some (JStr (CatVrsType_value k)) \<and> k \<in> set union_members"
proof -
  from d obtain j where j: "m ''type'' = Some j"
    by (cases "m ''type''") (simp_all add: CategoricalVariation_decode_def)
  from d j obtain s where s: "j = JStr s"
    by (cases j) (simp_all add: CategoricalVariation_decode_def)
  from d j s obtain k' where f: "find (\<lambda>k. CatVrsType_value k = s) union_members = Some k'"
    by (cases "find (\<lambda>k. CatVrsType_value k = s) union_members")
       (simp_all add: CategoricalVariation_decode_def)
  with d j s have "k' = k"
    by (cases "body k' m") (simp_all add: CategoricalVariation_decode_def)
  with f have "CatVrsType_value k = s \<and> k \<in> set union_members"
    using find_union_member_Some by blast
  with j s show ?thesis
    by simp
qed

text \<open>
  C7. Decoding a mapping into the CategoricalVariation union fails with a decode error
  whenever \<open>type\<close> is absent or is a string other than the four names of the union's
  classes, whatever the rest of the mapping is; and a decoded value is always of the
  class its input named, so no input is given a default class.
\<close>

theorem CategoricalVariation_tag_decides:
  "((m ''type'' = None \<or>
     (\<exists>s. m ''type'' = Some (JStr s) \<and>
        s \<notin> {''CanonicalAllele'', ''CategoricalCnv'', ''DescribedVariation'',
             ''ProteinSequenceConsequence''})) \<longrightarrow>
      (\<exists>t. CategoricalVariation_decode body m = Inl (DecodeError t))) \<and>
   (CategoricalVariation_decode body m = Inr (k, x) \<longrightarrow>
      m ''type'' = Some (JStr (CatVrsType_value k)) \<and> k \<in> set union_members)"
  apply (rule conjI)
   apply (rule impI)
   apply (erule disjE)
    apply (rule exI [of _ TagNotFound])
    apply (erule decode_tag_absent)
   apply (erule exE)
   apply (erule conjE)
   apply (rule exI [of _ TagInvalid])
   apply (erule decode_tag_unknown)
   apply assumption
  apply (rule impI)
  apply (erule decode_tag_known)
  done

theorem CategoricalVariation_tag_decides_witness:
  "(\<exists>t. CategoricalVariation_decode (\<lambda>k m. Inr ()) [''type'' \<mapsto> JStr ''NumberCount''] =
      Inl (DecodeError t)) \<and>
   (\<exists>t. CategoricalVariation_decode (\<lambda>k m. Inr ()) (Map.empty :: mapping) =
      Inl (DecodeError t)) \<and>
   CategoricalVariation_decode (\<lambda>k m. Inr ()) [''type'' \<mapsto> JStr ''CategoricalCnv''] =
      Inr (CATEGORICAL_CNV, ()) \<and>
   [''type'' \<mapsto> JStr ''CategoricalCnv''] ''type'' =
      Some (JStr (CatVrsType_value CATEGORICAL_CNV)) \<and>
   CATEGORICAL_CNV \<in> set union_members"
proof -
  let ?body = "\<lambda>(k::CatVrsType) (m::mapping). (Inr () :: error + unit)"
  have d: "CategoricalVariation_decode ?body [''type'' \<mapsto> JStr ''CategoricalCnv''] =
      Inr (CATEGORICAL_CNV, ())"
    by (simp add: CategoricalVariation_decode_def union_members_def)
  from CategoricalVariation_tag_decides
    [of "[''type'' \<mapsto> JStr ''NumberCount'']" ?body CATEGORICAL_CNV "()"]
  have 1: "\<exists>t. CategoricalVariation_decode ?body [''type'' \<mapsto> JStr ''NumberCount''] =
      Inl (DecodeError t)"
    by simp
  from CategoricalVariation_tag_decides [of "Map.empty" ?body CATEGORICAL_CNV "()"]
  have 2: "\<exists>t. CategoricalVariation_decode ?body (Map.empty :: mapping) = Inl (DecodeError t)"
    by simp
  from CategoricalVariation_tag_decides
    [of "[''type'' \<mapsto> JStr ''CategoricalCnv'']" ?body CATEGORICAL_CNV "()"] d
  have 3: "[''type'' \<mapsto> JStr ''CategoricalCnv''] ''type'' =
      Some (JStr (CatVrsType_value CATEGORICAL_CNV)) \<and>
      CATEGORICAL_CNV \<in> set union_members"
    by blast
  from 1 2 d 3 show ?thesis by blast
qed

subsection \<open>CategoricalCnv in the strict profile\<close>

lemma py_in_code_objects: "\<not> py_in (RelCode code) (map RelObj rs)"
  by (induction rs) (simp_all add: py_in_def)

lemma liftover_location_objects:
  "relations c = Some (map RelObj rs) \<Longrightarrow> \<not> liftover_location c"
  by (simp add: liftover_location_def py_in_code_objects)

lemma cnv_loop_flags:
  "cnv_loop (d, k) v = (d \<or> list_ex liftover_location v, k \<or> list_ex copy_constraint v)"
  by (induction v arbitrary: d k) auto

lemma CategoricalCnv_validate_flags:
  "CategoricalCnv_validate_constraints v =
     (if \<not> list_ex liftover_location v then Inl (ConstraintViolation NoDefiningLocation)
      else if \<not> list_ex copy_constraint v then Inl (ConstraintViolation NoCopyConstraint)
      else Inr v)"
  by (simp add: CategoricalCnv_validate_constraints_def cnv_loop_flags)

lemma CategoricalCnv_without_liftover_rejected:
  "\<not> list_ex liftover_location [c1, c2] \<Longrightarrow>
   CategoricalCnv_construct (Many [c1, c2]) = Inl (ConstraintViolation NoDefiningLocation)"
  by (simp add: CategoricalCnv_construct_def CategoricalCnv_validate_flags)

lemma CategoricalCnv_three_rejected:
  "CategoricalCnv_construct (Many [c1, c2, c3]) = Inl (StructuralValidationError TooLong)"
  by (simp add: CategoricalCnv_construct_def)

lemma CategoricalCnv_bare_code_accepted:
  "CategoricalCnv_construct
     (Many [\<lparr>ctype = DefiningLocationConstraint, relations = Some [RelCode LIFTOVER_TO]\<rparr>,
            \<lparr>ctype = CopyCountConstraint, relations = None\<rparr>]) =
   Inr [\<lparr>ctype = DefiningLocationConstraint, relations = Some [RelCode LIFTOVER_TO]\<rparr>,
        \<lparr>ctype = CopyCountConstraint, relations = None\<rparr>]"
  by (simp add: CategoricalCnv_construct_def CategoricalCnv_validate_flags
      liftover_location_def copy_constraint_def py_in_def)

text \<open>
  With bare codes in the list the two sibling validators cannot read \<open>primaryCode\<close>:
  no kind of item serves the three validators of the file at once.
\<close>

lemma CanonicalAllele_bare_codes_raise:
  "CanonicalAllele_construct
     (Many [\<lparr>ctype = DefiningAlleleConstraint,
             relations = Some [RelCode LIFTOVER_TO, RelCode TRANSCRIBES_TO]\<rparr>]) =
   Inl AttributeError"
  by (simp add: CanonicalAllele_construct_def)

lemma ProteinSequenceConsequence_bare_codes_raise:
  "ProteinSequenceConsequence_construct
     (Many [\<lparr>ctype = DefiningAlleleConstraint, relations = Some [RelCode TRANSLATES_FROM]\<rparr>]) =
   Inl AttributeError"
  by (simp add: ProteinSequenceConsequence_construct_def
      ProteinSequenceConsequence_validate_constraints_def translates_from_item_def)

lemma CategoricalCnv_order_independent:
  assumes "mset v = mset v'"
  shows "CategoricalCnv_construct (Many v) = Inr v \<longleftrightarrow> CategoricalCnv_construct (Many v') = Inr v'"
proof -
  from assms have "set v = set v'" and "length v = length v'"
    by (auto dest: mset_eq_setD mset_eq_length)
  then show ?thesis
    by (simp add: CategoricalCnv_construct_def CategoricalCnv_validate_flags list_ex_iff)
qed

text \<open>
  C2. The strict CategoricalCnv on two constraints, a DefiningLocationConstraint whose
  relations hold one relation object with \<open>primaryCode\<close> \<open>liftover_to\<close>, and a
  CopyCountConstraint. The validator tests the member \<open>Relation.LIFTOVER_TO\<close> itself for
  membership in the list; no relation object is equal to it, so the constraint is not
  counted and construction is rejected for want of a DefiningLocationConstraint with a
  \<open>liftover_to\<close> relation. The two other parts of the claim hold on the code
  (\<open>CategoricalCnv_without_liftover_rejected\<close>, \<open>CategoricalCnv_three_rejected\<close>).
\<close>

theorem CategoricalCnv_liftover_relation_rejected:
  "CategoricalCnv_construct
     (Many [\<lparr>ctype = DefiningLocationConstraint,
             relations = Some [RelObj \<lparr>primaryCode = ''liftover_to'', qualifiers = None\<rparr>]\<rparr>,
            \<lparr>ctype = CopyCountConstraint, relations = None\<rparr>]) =
   Inl (ConstraintViolation NoDefiningLocation)"
  by (simp add: CategoricalCnv_construct_def CategoricalCnv_validate_constraints_def
      liftover_location_def py_in_def)

subsection \<open>ProteinSequenceConsequence in the strict profile\<close>

lemma any_translates_from_no_raise:
  assumes "list_all (\<lambda>c. \<exists>n. sum_matching TRANSLATES_FROM (relations c) = Inr n) v"
  shows "any_translates_from v = Inr (list_ex (\<lambda>c. translates_from_item c = Inr True) v)"
  using assms
proof (induction v)
  case Nil
  then show ?case by simp
next
  case (Cons c cs)
  then obtain n where "sum_matching TRANSLATES_FROM (relations c) = Inr n"
    by auto
  with Cons show ?case
    by (auto simp: translates_from_item_def)
qed

lemma ProteinSequenceConsequence_order_independent_when_present:
  assumes "list_all (\<lambda>c. \<exists>n. sum_matching TRANSLATES_FROM (relations c) = Inr n) v"
    and "mset v = mset v'"
  shows "ProteinSequenceConsequence_construct (Many v) = Inr v \<longleftrightarrow>
         ProteinSequenceConsequence_construct (Many v') = Inr v'"
proof -
  from assms(2) have s: "set v = set v'" and l: "length v = length v'"
    by (auto dest: mset_eq_setD mset_eq_length)
  with assms(1) have "list_all (\<lambda>c. \<exists>n. sum_matching TRANSLATES_FROM (relations c) = Inr n) v'"
    by (simp add: list_all_iff)
  with assms(1) s l show ?thesis
    by (simp add: ProteinSequenceConsequence_construct_def
        ProteinSequenceConsequence_validate_constraints_def any_translates_from_no_raise
        list_ex_iff)
qed

text \<open>
  C3. The strict ProteinSequenceConsequence on a list whose first constraint has no
  relations. The sum over the relations is a member of the tuple given to \<open>all\<close>, so it
  is evaluated whatever the two conditions before it are; iterating \<open>None\<close> raises
  \<open>TypeError\<close>, and construction ends in that error, not in a constraint violation, also
  when a DefiningAlleleConstraint with exactly one \<open>translates_from\<close> relation is added
  to the list. On lists in which every constraint has its relations the claim holds
  (\<open>ProteinSequenceConsequence_none_satisfies\<close>, \<open>ProteinSequenceConsequence_one_added\<close>).
\<close>

theorem ProteinSequenceConsequence_absent_relations_raise:
  "ProteinSequenceConsequence_construct
     (Many [\<lparr>ctype = DefiningAlleleConstraint, relations = None\<rparr>]) = Inl TypeError \<and>
   ProteinSequenceConsequence_construct
     (Many [\<lparr>ctype = DefiningAlleleConstraint, relations = None\<rparr>,
            \<lparr>ctype = DefiningAlleleConstraint,
             relations = Some [RelObj \<lparr>primaryCode = ''translates_from'', qualifiers = None\<rparr>]\<rparr>]) =
   Inl TypeError"
  by (simp add: ProteinSequenceConsequence_construct_def
      ProteinSequenceConsequence_validate_constraints_def translates_from_item_def)

text \<open>
  C8. The strict ProteinSequenceConsequence on the two orders of one pair of constraints.
  With the satisfying constraint first, \<open>any\<close> stops before the constraint without
  relations is examined and construction succeeds; with it second, construction ends in
  \<open>TypeError\<close>. CategoricalCnv does not depend on the order
  (\<open>CategoricalCnv_order_independent\<close>), and neither does ProteinSequenceConsequence on
  lists in which every constraint has its relations
  (\<open>ProteinSequenceConsequence_order_independent_when_present\<close>).
\<close>

theorem ProteinSequenceConsequence_order_matters:
  "ProteinSequenceConsequence_construct
     (Many [\<lparr>ctype = DefiningAlleleConstraint,
             relations = Some [RelObj \<lparr>primaryCode = ''translates_from'', qualifiers = None\<rparr>]\<rparr>,
            \<lparr>ctype = DefiningLocationConstraint, relations = None\<rparr>]) =
   Inr [\<lparr>ctype = DefiningAlleleConstraint,
         relations = Some [RelObj \<lparr>primaryCode = ''translates_from'', qualifiers = None\<rparr>]\<rparr>,
        \<lparr>ctype = DefiningLocationConstraint, relations = None\<rparr>] \<and>
   ProteinSequenceConsequence_construct
     (Many [\<lparr>ctype = DefiningLocationConstraint, relations = None\<rparr>,
            \<lparr>ctype = DefiningAlleleConstraint,
             relations = Some [RelObj \<lparr>primaryCode = ''translates_from'', qualifiers = None\<rparr>]\<rparr>]) =
   Inl TypeError"
  by (simp add: ProteinSequenceConsequence_construct_def
      ProteinSequenceConsequence_validate_constraints_def translates_from_item_def
      TRANSLATES_FROM_def)

lemma ProteinSequenceConsequence_none_satisfies:
  assumes "list_all (\<lambda>c. \<exists>n. sum_matching TRANSLATES_FROM (relations c) = Inr n) v"
    and "v \<noteq> []"
    and "\<not> list_ex (\<lambda>c. translates_from_item c = Inr True) v"
  shows "ProteinSequenceConsequence_construct (Many v) = Inl (ConstraintViolation NoTranslatesFrom)"
proof -
  from assms(2) have "\<not> length v < 1"
    by (cases v) simp_all
  with assms(1,3) show ?thesis
    by (simp add: ProteinSequenceConsequence_construct_def
        ProteinSequenceConsequence_validate_constraints_def any_translates_from_no_raise)
qed

lemma ProteinSequenceConsequence_one_added:
  assumes "list_all (\<lambda>c. \<exists>n. sum_matching TRANSLATES_FROM (relations c) = Inr n) v"
    and "translates_from_item c = Inr True"
  shows "ProteinSequenceConsequence_construct (Many (v @ [c])) = Inr (v @ [c])"
proof -
  from assms(2) obtain n where "sum_matching TRANSLATES_FROM (relations c) = Inr n"
    by (auto simp: translates_from_item_def split: sum.splits)
  with assms(1)
  have "list_all (\<lambda>c. \<exists>n. sum_matching TRANSLATES_FROM (relations c) = Inr n) (v @ [c])"
    by simp
  with assms(2) show ?thesis
    by (simp add: ProteinSequenceConsequence_construct_def
        ProteinSequenceConsequence_validate_constraints_def any_translates_from_no_raise)
qed

subsection \<open>Empty and absent relations\<close>

lemma CanonicalAllele_falsy_relations:
  "\<not> truthy (relations c) \<Longrightarrow>
   CanonicalAllele_construct (Many [c]) =
     Inl (ConstraintViolation
       (if ctype c \<noteq> DefiningAlleleConstraint then NotDefiningAllele else RelationsRequired))"
  by (simp add: CanonicalAllele_construct_def)

lemma liftover_location_falsy: "\<not> truthy (relations c) \<Longrightarrow> \<not> liftover_location c"
  by (cases "relations c") (simp_all add: liftover_location_def)

lemma CategoricalCnv_all_falsy:
  assumes "list_all (\<lambda>c. \<not> truthy (relations c)) v"
  shows "\<exists>e. CategoricalCnv_construct (Many v) = Inl e"
proof -
  from assms have "\<not> list_ex liftover_location v"
    by (auto simp: list_all_iff list_ex_iff dest: liftover_location_falsy)
  then show ?thesis
    by (simp add: CategoricalCnv_construct_def CategoricalCnv_validate_flags)
qed

lemma translates_from_item_empty:
  "relations c = Some [] \<Longrightarrow> translates_from_item c = Inr False"
  by (simp add: translates_from_item_def)

lemma any_translates_from_all_empty:
  "list_all (\<lambda>c. relations c = Some []) v \<Longrightarrow> any_translates_from v = Inr False"
  by (induction v) (simp_all add: translates_from_item_empty)

lemma ProteinSequenceConsequence_all_empty:
  assumes "list_all (\<lambda>c. relations c = Some []) v"
  shows "\<exists>e. ProteinSequenceConsequence_construct (Many v) = Inl e"
  using any_translates_from_all_empty [OF assms]
  by (simp add: ProteinSequenceConsequence_construct_def
      ProteinSequenceConsequence_validate_constraints_def)

lemma permissive_falsy_no_warning:
  assumes "\<not> truthy (core_relations d)"
  shows "ProteinSequenceConsequenceProperties_validate_constraints d = (d, [])"
    and "CanonicalAlleleProperties_validate_constraints d = (d, [])"
    and "CategoricalCnvProperties_validate_constraints d = (d, [])"
  using assms
  by (cases "core_relations d";
      simp add: ProteinSequenceConsequenceProperties_validate_constraints_def
        CanonicalAlleleProperties_validate_constraints_def
        CategoricalCnvProperties_validate_constraints_def)+

text \<open>
  C4, as stated, fails in the permissive profile: a constraint with no relations is
  accepted and nothing is logged.
\<close>

theorem permissive_absent_relations_silent:
  "ProteinSequenceConsequenceProperties_construct
     (Single \<lparr>core_type = DefiningContextConstraint, core_relations = None\<rparr>) =
   (Inr \<lparr>core_type = DefiningContextConstraint, core_relations = None\<rparr>, [])"
  by (simp add: ProteinSequenceConsequenceProperties_construct_def construct_with_def
      is_DefiningContextConstraint_def ProteinSequenceConsequenceProperties_validate_constraints_def)

text \<open>
  C4, amended. In the strict profile a constraint whose relations are empty or absent
  never satisfies a rule that asks for a relation: CanonicalAllele rejects it with a
  constraint violation, CategoricalCnv rejects every list in which all constraints have
  empty or absent relations, and ProteinSequenceConsequence rejects every list in which
  all constraints have an empty relations list. In the permissive profile the validators
  look at the relations only when there are some: a constraint whose relations are empty
  or absent is accepted and no warning is logged.
\<close>

theorem empty_or_absent_relations_by_profile:
  "(\<not> truthy (relations c) \<longrightarrow>
      (\<exists>w. CanonicalAllele_construct (Many [c]) = Inl (ConstraintViolation w))) \<and>
   (list_all (\<lambda>c. \<not> truthy (relations c)) v \<longrightarrow>
      (\<exists>e. CategoricalCnv_construct (Many v) = Inl e)) \<and>
   (list_all (\<lambda>c. relations c = Some []) v' \<longrightarrow>
      (\<exists>e. ProteinSequenceConsequence_construct (Many v') = Inl e)) \<and>
   (\<not> truthy (core_relations d) \<longrightarrow>
      snd (ProteinSequenceConsequenceProperties_construct (Single d)) = [] \<and>
      snd (CanonicalAlleleProperties_construct (Single d)) = [] \<and>
      CategoricalCnvProperties_construct (Single d) = (Inr d, []) \<and>
      (core_type d = DefiningContextConstraint \<longrightarrow>
         ProteinSequenceConsequenceProperties_construct (Single d) = (Inr d, []) \<and>
         CanonicalAlleleProperties_construct (Single d) = (Inr d, [])))"
proof (intro conjI impI)
  assume "\<not> truthy (relations c)"
  then show "\<exists>w. CanonicalAllele_construct (Many [c]) = Inl (ConstraintViolation w)"
    by (simp add: CanonicalAllele_falsy_relations)
next
  assume "list_all (\<lambda>c. \<not> truthy (relations c)) v"
  then show "\<exists>e. CategoricalCnv_construct (Many v) = Inl e"
    by (rule CategoricalCnv_all_falsy)
next
  assume "list_all (\<lambda>c. relations c = Some []) v'"
  then show "\<exists>e. ProteinSequenceConsequence_construct (Many v') = Inl e"
    by (rule ProteinSequenceConsequence_all_empty)
next
  assume f: "\<not> truthy (core_relations d)"
  then show "snd (ProteinSequenceConsequenceProperties_construct (Single d)) = []"
    by (simp add: ProteinSequenceConsequenceProperties_construct_def construct_with_def
        permissive_falsy_no_warning)
  from f show "snd (CanonicalAlleleProperties_construct (Single d)) = []"
    by (simp add: CanonicalAlleleProperties_construct_def construct_with_def
        permissive_falsy_no_warning)
  from f show "CategoricalCnvProperties_construct (Single d) = (Inr d, [])"
    by (simp add: CategoricalCnvProperties_construct_def construct_with_def
        permissive_falsy_no_warning is_Constraint_def)
  assume "core_type d = DefiningContextConstraint"
  with f show "ProteinSequenceConsequenceProperties_construct (Single d) = (Inr d, [])"
    by (simp add: ProteinSequenceConsequenceProperties_construct_def construct_with_def
        permissive_falsy_no_warning is_DefiningContextConstraint_def)
  assume "core_type d = DefiningContextConstraint"
  with f show "CanonicalAlleleProperties_construct (Single d) = (Inr d, [])"
    by (simp add: CanonicalAlleleProperties_construct_def construct_with_def
        permissive_falsy_no_warning is_DefiningContextConstraint_def)
qed

theorem empty_or_absent_relations_by_profile_witness:
  "(\<exists>w. CanonicalAllele_construct
      (Many [\<lparr>ctype = DefiningAlleleConstraint, relations = None\<rparr>]) =
      Inl (ConstraintViolation w)) \<and>
   (\<exists>e. CategoricalCnv_construct
      (Many [\<lparr>ctype = DefiningLocationConstraint, relations = Some []\<rparr>,
             \<lparr>ctype = CopyCountConstraint, relations = None\<rparr>]) = Inl e) \<and>
   (\<exists>e. ProteinSequenceConsequence_construct
      (Many [\<lparr>ctype = DefiningAlleleConstraint, relations = Some []\<rparr>]) = Inl e) \<and>
   CategoricalCnvProperties_construct
     (Single \<lparr>core_type = DefiningContextConstraint, core_relations = Some []\<rparr>) =
     (Inr \<lparr>core_type = DefiningContextConstraint, core_relations = Some []\<rparr>, []) \<and>
   ProteinSequenceConsequenceProperties_construct
     (Single \<lparr>core_type = DefiningContextConstraint, core_relations = Some []\<rparr>) =
     (Inr \<lparr>core_type = DefiningContextConstraint, core_relations = Some []\<rparr>, []) \<and>
   CanonicalAlleleProperties_construct
     (Single \<lparr>core_type = DefiningContextConstraint, core_relations = Some []\<rparr>) =
     (Inr \<lparr>core_type = DefiningContextConstraint, core_relations = Some []\<rparr>, [])"
  using empty_or_absent_relations_by_profile
    [of "\<lparr>ctype = DefiningAlleleConstraint, relations = None\<rparr>"
        "[\<lparr>ctype = DefiningLocationConstraint, relations = Some []\<rparr>,
          \<lparr>ctype = CopyCountConstraint, relations = None\<rparr>]"
        "[\<lparr>ctype = DefiningAlleleConstraint, relations = Some []\<rparr>]"
        "\<lparr>core_type = DefiningContextConstraint, core_relations = Some []\<rparr>"]
  by simp

subsection \<open>A missing relation in the two profiles\<close>

lemma CanonicalAllele_count_not_one:
  assumes "code = LIFTOVER_TO \<or> code = TRANSCRIBES_TO"
    and "sum_matching code (relations c) \<noteq> Inr 1"
  shows "\<exists>e. CanonicalAllele_construct (Many [c]) = Inl e"
  using assms
  by (auto simp: CanonicalAllele_construct_def split: sum.splits)

lemma CanonicalAlleleProperties_missing:
  assumes "core_relations d = Some rs" and "rs \<noteq> []"
    and "SEQUENCE_LIFTOVER \<notin> set rs \<or> TRANSCRIPT_PROJECTION \<notin> set rs"
  shows "CanonicalAlleleProperties_validate_constraints d =
     (d, [MissingRelations ({SEQUENCE_LIFTOVER, TRANSCRIPT_PROJECTION} - set rs)])"
  using assms
  by (auto simp: CanonicalAlleleProperties_validate_constraints_def Let_def)

text \<open>
  C5, as stated, fails when the relations are an empty list: both codes the permissive
  CanonicalAllele asks for are missing, construction succeeds, and nothing is logged.
\<close>

theorem permissive_empty_relations_no_warning:
  "SEQUENCE_LIFTOVER \<notin> set ([] :: string list) \<and>
   TRANSCRIPT_PROJECTION \<notin> set ([] :: string list) \<and>
   CanonicalAlleleProperties_construct
     (Single \<lparr>core_type = DefiningContextConstraint, core_relations = Some []\<rparr>) =
   (Inr \<lparr>core_type = DefiningContextConstraint, core_relations = Some []\<rparr>, [])"
  by (simp add: CanonicalAlleleProperties_construct_def construct_with_def
      is_DefiningContextConstraint_def CanonicalAlleleProperties_validate_constraints_def)

text \<open>
  C5, amended. In the permissive profile, CanonicalAllele construction with one
  DefiningContextConstraint whose relations are not empty and lack \<open>sequence_liftover\<close>
  or \<open>transcript_projection\<close> succeeds, and exactly one warning is logged, naming the
  codes that are missing; when the relations are empty or absent it succeeds and nothing
  is logged. In the strict profile, a single constraint in which \<open>liftover_to\<close> or
  \<open>transcribes_to\<close> is not counted exactly once fails construction.
\<close>

theorem CanonicalAllele_missing_relation_by_profile:
  "(core_type d = DefiningContextConstraint \<and> core_relations d = Some rs \<and> rs \<noteq> [] \<and>
    (SEQUENCE_LIFTOVER \<notin> set rs \<or> TRANSCRIPT_PROJECTION \<notin> set rs) \<longrightarrow>
      CanonicalAlleleProperties_construct (Single d) =
        (Inr d, [MissingRelations ({SEQUENCE_LIFTOVER, TRANSCRIPT_PROJECTION} - set rs)]) \<and>
      {SEQUENCE_LIFTOVER, TRANSCRIPT_PROJECTION} - set rs \<noteq> {}) \<and>
   ((code = LIFTOVER_TO \<or> code = TRANSCRIBES_TO) \<and>
    sum_matching code (relations c) \<noteq> Inr 1 \<longrightarrow>
      (\<exists>e. CanonicalAllele_construct (Many [c]) = Inl e)) \<and>
   (core_type d0 = DefiningContextConstraint \<and> \<not> truthy (core_relations d0) \<longrightarrow>
      CanonicalAlleleProperties_construct (Single d0) = (Inr d0, []))"
proof (intro conjI impI)
  assume a: "core_type d = DefiningContextConstraint \<and> core_relations d = Some rs \<and>
    rs \<noteq> [] \<and> (SEQUENCE_LIFTOVER \<notin> set rs \<or> TRANSCRIPT_PROJECTION \<notin> set rs)"
  then have "CanonicalAlleleProperties_validate_constraints d =
     (d, [MissingRelations ({SEQUENCE_LIFTOVER, TRANSCRIPT_PROJECTION} - set rs)])"
    by (simp add: CanonicalAlleleProperties_missing)
  with a show "CanonicalAlleleProperties_construct (Single d) =
        (Inr d, [MissingRelations ({SEQUENCE_LIFTOVER, TRANSCRIPT_PROJECTION} - set rs)])"
    by (simp add: CanonicalAlleleProperties_construct_def construct_with_def
        is_DefiningContextConstraint_def)
  from a show "{SEQUENCE_LIFTOVER, TRANSCRIPT_PROJECTION} - set rs \<noteq> {}"
    by auto
next
  assume "(code = LIFTOVER_TO \<or> code = TRANSCRIBES_TO) \<and>
    sum_matching code (relations c) \<noteq> Inr 1"
  then show "\<exists>e. CanonicalAllele_construct (Many [c]) = Inl e"
    using CanonicalAllele_count_not_one by blast
next
  assume "core_type d0 = DefiningContextConstraint \<and> \<not> truthy (core_relations d0)"
  then show "CanonicalAlleleProperties_construct (Single d0) = (Inr d0, [])"
    by (simp add: CanonicalAlleleProperties_construct_def construct_with_def
        is_DefiningContextConstraint_def permissive_falsy_no_warning)
qed

theorem CanonicalAllele_missing_relation_by_profile_witness:
  "CanonicalAlleleProperties_construct
     (Single \<lparr>core_type = DefiningContextConstraint,
              core_relations = Some [''sequence_liftover'']\<rparr>) =
     (Inr \<lparr>core_type = DefiningContextConstraint,
            core_relations = Some [''sequence_liftover'']\<rparr>,
      [MissingRelations {''transcript_projection''}]) \<and>
   (\<exists>e. CanonicalAllele_construct
      (Many [\<lparr>ctype = DefiningAlleleConstraint,
              relations = Some [RelObj \<lparr>primaryCode = ''liftover_to'', qualifiers = None\<rparr>]\<rparr>]) =
      Inl e) \<and>
   CanonicalAlleleProperties_construct
     (Single \<lparr>core_type = DefiningContextConstraint, core_relations = None\<rparr>) =
     (Inr \<lparr>core_type = DefiningContextConstraint, core_relations = None\<rparr>, [])"
  using CanonicalAllele_missing_relation_by_profile
    [of "\<lparr>core_type = DefiningContextConstraint, core_relations = Some [''sequence_liftover'']\<rparr>"
        "[''sequence_liftover'']" TRANSCRIBES_TO
        "\<lparr>ctype = DefiningAlleleConstraint,
              relations = Some [RelObj \<lparr>primaryCode = ''liftover_to'', qualifiers = None\<rparr>]\<rparr>"
        "\<lparr>core_type = DefiningContextConstraint, core_relations = None\<rparr>"]
  by (simp add: SEQUENCE_LIFTOVER_def TRANSCRIPT_PROJECTION_def TRANSCRIBES_TO_def)

subsection \<open>DescribedVariation\<close>

text \<open>
  C6, as stated, fails on the empty string: \<open>label\<close> is declared \<open>StrictStr\<close> with no
  minimum length, and a mapping whose label is \<open>""\<close>, with no other field given, is
  accepted.
\<close>

theorem DescribedVariation_empty_label_accepted:
  "DescribedVariation_construct (\<lambda>m. True) (\<lambda>j. False) [''label'' \<mapsto> JStr ''''] =
   Inr \<lparr>members = None, type = DESCRIBED_VAR, label = '''', description = None\<rparr>"
  by (simp add: DescribedVariation_construct_def members_field_def literal_field_def
      required_StrictStr_def optional_StrictStr_def)

lemma literal_field_accepts:
  "literal_field k x = Inr t \<longleftrightarrow>
     t = k \<and> (x = None \<or> x = Some (JStr (CatVrsType_value k)))"
proof (cases x)
  case None
  then show ?thesis by (auto simp: literal_field_def)
next
  case (Some j)
  then show ?thesis by (cases j) (auto simp: literal_field_def)
qed

lemma optional_StrictStr_accepts:
  "optional_StrictStr x = Inr d \<longleftrightarrow>
     (d = None \<and> (x = None \<or> x = Some JNull)) \<or> (\<exists>s. d = Some s \<and> x = Some (JStr s))"
proof (cases x)
  case None
  then show ?thesis by (auto simp: optional_StrictStr_def)
next
  case (Some j)
  then show ?thesis by (cases j) (auto simp: optional_StrictStr_def)
qed

lemma members_field_accepts:
  "members_field member_ok x = Inr ms \<longleftrightarrow>
     (ms = None \<and> (x = None \<or> x = Some JNull)) \<or>
     (\<exists>xs. ms = Some xs \<and> x = Some (JList xs) \<and> list_all member_ok xs)"
proof (cases x)
  case None
  then show ?thesis by (auto simp: members_field_def)
next
  case (Some j)
  then show ?thesis by (cases j) (auto simp: members_field_def)
qed

lemma required_StrictStr_accepts:
  "required_StrictStr x = Inr s \<longleftrightarrow> x = Some (JStr s)"
proof (cases x)
  case None
  then show ?thesis by (simp add: required_StrictStr_def)
next
  case (Some j)
  then show ?thesis by (cases j) (auto simp: required_StrictStr_def)
qed

lemma required_StrictStr_absent:
  "required_StrictStr None = Inl (StructuralValidationError Missing)"
  by (simp add: required_StrictStr_def)

lemma members_field_error:
  assumes "members_field member_ok x = Inl e"
  shows "\<exists>r. e = StructuralValidationError r"
proof (cases x)
  case None
  with assms show ?thesis by (simp add: members_field_def)
next
  case (Some j)
  with assms show ?thesis by (cases j) (auto simp: members_field_def split: if_splits)
qed

lemma literal_field_error:
  assumes "literal_field k x = Inl e"
  shows "\<exists>r. e = StructuralValidationError r"
proof (cases x)
  case None
  with assms show ?thesis by (simp add: literal_field_def)
next
  case (Some j)
  with assms show ?thesis by (cases j) (auto simp: literal_field_def split: if_splits)
qed

lemma DescribedVariation_label_absent:
  assumes "m ''label'' = None"
  shows "\<exists>r. DescribedVariation_construct inherited member_ok m =
           Inl (StructuralValidationError r)"
proof (cases "inherited m")
  case False
  then show ?thesis by (simp add: DescribedVariation_construct_def)
next
  case True
  show ?thesis
  proof (cases "members_field member_ok (m ''members'')")
    case (Inl e)
    with True members_field_error [OF Inl] show ?thesis
      by (auto simp: DescribedVariation_construct_def)
  next
    case ms: (Inr ms)
    show ?thesis
    proof (cases "literal_field DESCRIBED_VAR (m ''type'')")
      case (Inl e)
      with True ms literal_field_error [OF Inl] show ?thesis
        by (auto simp: DescribedVariation_construct_def)
    next
      case (Inr t)
      with True ms assms show ?thesis
        by (simp add: DescribedVariation_construct_def required_StrictStr_absent)
    qed
  qed
qed

lemma DescribedVariation_label_kept:
  assumes "DescribedVariation_construct inherited member_ok m = Inr d"
  shows "m ''label'' = Some (JStr (label d))"
proof -
  from assms obtain l where l: "required_StrictStr (m ''label'') = Inr l" and "label d = l"
    by (auto simp: DescribedVariation_construct_def split: if_splits sum.splits)
  then show ?thesis
    by (simp add: required_StrictStr_accepts)
qed

lemma DescribedVariation_any_label:
  assumes "inherited m"
    and "members_field member_ok (m ''members'') = Inr ms"
    and "literal_field DESCRIBED_VAR (m ''type'') = Inr t"
    and "optional_StrictStr (m ''description'') = Inr dsc"
    and "m ''label'' = Some (JStr s)"
  shows "DescribedVariation_construct inherited member_ok m =
           Inr \<lparr>members = ms, type = t, label = s, description = dsc\<rparr>"
proof -
  from assms(5) have "required_StrictStr (m ''label'') = Inr s"
    by (simp add: required_StrictStr_accepts)
  with assms(1-4) show ?thesis
    by (simp add: DescribedVariation_construct_def)
qed

text \<open>
  C6, amended. Every validated DescribedVariation has the string its input gave as
  \<open>label\<close>: construction with the label absent fails with a structural error whatever
  the other fields are, a constructed value carries the input's label, and whenever the
  other fields of the mapping validate, construction succeeds with any string as label,
  the empty one included.
\<close>

theorem DescribedVariation_label_is_a_string:
  "(m ''label'' = None \<longrightarrow>
      (\<exists>r. DescribedVariation_construct inherited member_ok m =
            Inl (StructuralValidationError r))) \<and>
   (DescribedVariation_construct inherited member_ok m = Inr d \<longrightarrow>
      m ''label'' = Some (JStr (label d))) \<and>
   (inherited m' \<and>
    members_field member_ok (m' ''members'') = Inr ms \<and>
    literal_field DESCRIBED_VAR (m' ''type'') = Inr t \<and>
    optional_StrictStr (m' ''description'') = Inr dsc \<and>
    m' ''label'' = Some (JStr s) \<longrightarrow>
      DescribedVariation_construct inherited member_ok m' =
        Inr \<lparr>members = ms, type = t, label = s, description = dsc\<rparr>)"
  apply (intro conjI impI)
    apply (erule DescribedVariation_label_absent)
   apply (erule DescribedVariation_label_kept)
  apply (elim conjE)
  apply (erule (4) DescribedVariation_any_label)
  done

theorem DescribedVariation_label_is_a_string_witness:
  "(\<exists>r. DescribedVariation_construct (\<lambda>m. True) (\<lambda>j. True)
          [''members'' \<mapsto> JList [], ''description'' \<mapsto> JStr ''text''] =
        Inl (StructuralValidationError r)) \<and>
   [''label'' \<mapsto> JStr ''''] ''label'' =
     Some (JStr (label \<lparr>members = None, type = DESCRIBED_VAR, label = '''',
                        description = None\<rparr>)) \<and>
   DescribedVariation_construct (\<lambda>m. True) (\<lambda>j. True)
     [''type'' \<mapsto> JStr ''DescribedVariation'', ''members'' \<mapsto> JList [JStr ''ga4gh:VA.x''],
      ''description'' \<mapsto> JStr ''text'', ''label'' \<mapsto> JStr ''''] =
     Inr \<lparr>members = Some [JStr ''ga4gh:VA.x''], type = DESCRIBED_VAR, label = '''',
          description = Some ''text''\<rparr>"
proof -
  let ?inh = "\<lambda>m::mapping. True" and ?ok = "\<lambda>j::json. True"
  let ?m0 = "[''members'' \<mapsto> JList [], ''description'' \<mapsto> JStr ''text'']"
  let ?m1 = "[''label'' \<mapsto> JStr '''']"
  let ?d1 = "\<lparr>members = None, type = DESCRIBED_VAR, label = '''', description = None\<rparr>"
  let ?m2 = "[''type'' \<mapsto> JStr ''DescribedVariation'',
      ''members'' \<mapsto> JList [JStr ''ga4gh:VA.x''],
      ''description'' \<mapsto> JStr ''text'', ''label'' \<mapsto> JStr '''']"
  have c: "DescribedVariation_construct ?inh ?ok ?m1 = Inr ?d1"
    by (simp add: DescribedVariation_construct_def members_field_def literal_field_def
        required_StrictStr_def optional_StrictStr_def)
  have f: "?inh ?m2 \<and>
    members_field ?ok (?m2 ''members'') = Inr (Some [JStr ''ga4gh:VA.x'']) \<and>
    literal_field DESCRIBED_VAR (?m2 ''type'') = Inr DESCRIBED_VAR \<and>
    optional_StrictStr (?m2 ''description'') = Inr (Some ''text'') \<and>
    ?m2 ''label'' = Some (JStr [])"
    by (simp add: members_field_def literal_field_def optional_StrictStr_def)
  have l: "?m0 ''label'' = None"
    by simp
  note t = DescribedVariation_label_is_a_string
    [of _ ?inh ?ok _ ?m2 "Some [JStr ''ga4gh:VA.x'']" DESCRIBED_VAR "Some ''text''" "[]"]
  have 1: "\<exists>r. DescribedVariation_construct ?inh ?ok ?m0 = Inl (StructuralValidationError r)"
    by (rule t [of ?m0 ?d1, THEN conjunct1, THEN mp, OF l])
  have 2: "?m1 ''label'' = Some (JStr (label ?d1))"
    by (rule t [of ?m1 ?d1, THEN conjunct2, THEN conjunct1, THEN mp, OF c])
  have 3: "DescribedVariation_construct ?inh ?ok ?m2 =
      Inr \<lparr>members = Some [JStr ''ga4gh:VA.x''], type = DESCRIBED_VAR, label = [],
           description = Some ''text''\<rparr>"
    by (rule t [of ?m0 ?d1, THEN conjunct2, THEN conjunct2, THEN mp, OF f])
  from 1 2 3 show ?thesis
    by (intro conjI)
qed

end
